theory Spec2Isabelle
  imports Complex_Main "HOL-Library.Word"
begin

unbundle bit_operations_syntax

section \<open>The platform: clock, cursor, foreground window, window placement\<close>

text \<open>
  The shell talks to the operating system through \<open>time.time()\<close>, \<open>GetCursorPos\<close>,
  \<open>GetForegroundWindow\<close>, \<open>GetWindowRect\<close> and \<open>SetWindowPos\<close>. The values the
  platform hands back are inputs of the model: \<open>clock\<close> and \<open>cursor\<close> give the value of
  the n-th read, and the counters say how many reads have happened. Python floats are
  idealised as reals throughout.
\<close>

type_synonym hwnd = nat

record os_world =
  clock :: "nat \<Rightarrow> real"
  clock_reads :: nat
  cursor :: "nat \<Rightarrow> int \<times> int"
  cursor_reads :: nat
  foreground :: hwnd
  screen_width :: int
  screen_height :: int
  win_x :: int
  win_y :: int
  win_cx :: int
  win_cy :: int
  win_after :: int
  win_shown :: bool

definition time_time :: "os_world \<Rightarrow> real \<times> os_world" where
  "time_time os = (clock os (clock_reads os), os\<lparr>clock_reads := Suc (clock_reads os)\<rparr>)"

definition GetCursorPos :: "os_world \<Rightarrow> (int \<times> int) \<times> os_world" where
  "GetCursorPos os = (cursor os (cursor_reads os), os\<lparr>cursor_reads := Suc (cursor_reads os)\<rparr>)"

definition GetForegroundWindow :: "os_world \<Rightarrow> hwnd" where
  "GetForegroundWindow os = foreground os"

text \<open>\<open>GetWindowRect\<close> returns (left, top, right, bottom).\<close>

definition GetWindowRect :: "os_world \<Rightarrow> int \<times> int \<times> int \<times> int" where
  "GetWindowRect os = (win_x os, win_y os, win_x os + win_cx os, win_y os + win_cy os)"

definition SWP_NOSIZE :: "32 word" where "SWP_NOSIZE = 0x0001"
definition SWP_NOMOVE :: "32 word" where "SWP_NOMOVE = 0x0002"
definition SWP_NOZORDER :: "32 word" where "SWP_NOZORDER = 0x0004"
definition SWP_SHOWWINDOW :: "32 word" where "SWP_SHOWWINDOW = 0x0040"
definition HWND_TOPMOST :: int where "HWND_TOPMOST = - 1"

text \<open>
  \<open>SetWindowPos(hwnd, insert_after, x, y, cx, cy, flags)\<close> of the Win32 API: the flags
  \<open>SWP_NOMOVE\<close>, \<open>SWP_NOSIZE\<close> and \<open>SWP_NOZORDER\<close> keep the position, the size and the
  place in the z-order as they are; the arguments they cover are ignored.
\<close>

definition SetWindowPos ::
  "int \<Rightarrow> int \<Rightarrow> int \<Rightarrow> int \<Rightarrow> int \<Rightarrow> 32 word \<Rightarrow> os_world \<Rightarrow> os_world" where
  "SetWindowPos insert_after x y cx cy flags os =
     os\<lparr>win_x := (if flags AND SWP_NOMOVE \<noteq> 0 then win_x os else x),
        win_y := (if flags AND SWP_NOMOVE \<noteq> 0 then win_y os else y),
        win_cx := (if flags AND SWP_NOSIZE \<noteq> 0 then win_cx os else cx),
        win_cy := (if flags AND SWP_NOSIZE \<noteq> 0 then win_cy os else cy),
        win_after := (if flags AND SWP_NOZORDER \<noteq> 0 then win_after os else insert_after),
        win_shown := (win_shown os \<or> flags AND SWP_SHOWWINDOW \<noteq> 0)\<rparr>"

section \<open>Input events\<close>

text \<open>
  A pygame event by its type, with the attributes the code reads: \<open>key\<close> for the
  keyboard events, \<open>button\<close> and \<open>pos\<close> for the mouse buttons, \<open>pos\<close> for motion.
\<close>

datatype event =
    QUIT
  | KEYDOWN int
  | KEYUP int
  | MOUSEBUTTONDOWN int "int \<times> int"
  | MOUSEBUTTONUP int "int \<times> int"
  | MOUSEMOTION "int \<times> int"
  | OTHER nat

definition K_ESCAPE :: int where "K_ESCAPE = 27"
definition K_RETURN :: int where "K_RETURN = 13"

section \<open>circular\_window.py: class CircularWindow\<close>

record circular_window =
  os :: os_world
  win_size :: int
  hwnd :: hwnd
  dragging :: bool
  drag_offset :: "(int \<times> int) option"
  escape_start :: "real option"
  escape_held :: bool
  escape_duration :: real
  has_focus :: bool
  max_radius :: int
  min_radius :: int
  current_radius :: real
  target_radius :: real
  size_transition_speed :: real
  expanded :: bool

text \<open>
  \<open>__init__\<close>: the window handle is the foreground window at creation, the window is
  centred, shown and made topmost, and the state fields get their initial values.
\<close>

definition CircularWindow_init :: "int \<Rightarrow> os_world \<Rightarrow> circular_window" where
  "CircularWindow_init sz os0 =
     \<lparr>os = SetWindowPos HWND_TOPMOST
              ((screen_width os0 - sz) div 2) ((screen_height os0 - sz) div 2)
              sz sz SWP_SHOWWINDOW os0,
      win_size = sz,
      hwnd = GetForegroundWindow os0,
      dragging = False,
      drag_offset = None,
      escape_start = None,
      escape_held = False,
      escape_duration = 1.5,
      has_focus = True,
      max_radius = sz div 2,
      min_radius = sz div 5,
      current_radius = real_of_int (sz div 2),
      target_radius = real_of_int (sz div 2),
      size_transition_speed = 8.0,
      expanded = True\<rparr>"

text \<open>
  \<open>draw_closing_animation\<close>, up to the progress fraction that the arc is drawn from:
  \<open>None\<close> when the method returns at once, and the clock is read only otherwise.
\<close>

definition draw_closing_animation ::
  "'a circular_window_scheme \<Rightarrow> real option \<times> 'a circular_window_scheme" where
  "draw_closing_animation w =
     (if \<not> escape_held w \<or> escape_start w = None then (None, w)
      else (case time_time (os w) of (now, os') \<Rightarrow>
              (Some (min 1.0 ((now - the (escape_start w)) / escape_duration w)),
               w\<lparr>os := os'\<rparr>)))"

definition get_cursor_pos ::
  "'a circular_window_scheme \<Rightarrow> (int \<times> int) \<times> 'a circular_window_scheme" where
  "get_cursor_pos w = (case GetCursorPos (os w) of (p, os') \<Rightarrow> (p, w\<lparr>os := os'\<rparr>))"

definition update_window_pos :: "'a circular_window_scheme \<Rightarrow> 'a circular_window_scheme" where
  "update_window_pos w =
     (if \<not> dragging w \<or> drag_offset w = None then w
      else (case get_cursor_pos w of ((cursor_x, cursor_y), w1) \<Rightarrow>
              (let new_x = cursor_x - fst (the (drag_offset w));
                   new_y = cursor_y - snd (the (drag_offset w))
               in w1\<lparr>os := SetWindowPos 0 new_x new_y 0 0
                               (SWP_NOSIZE OR SWP_NOZORDER) (os w1)\<rparr>)))"

definition lerp :: "real \<Rightarrow> real \<Rightarrow> real \<Rightarrow> real" where
  "lerp start end' t = start + (end' - start) * t"

definition update_size :: "'a circular_window_scheme \<Rightarrow> 'a circular_window_scheme" where
  "update_size w =
     (if \<bar>current_radius w - target_radius w\<bar> > 0.1
      then (let dt = 1 / 60
            in w\<lparr>current_radius :=
                   lerp (current_radius w) (target_radius w)
                        (1 - exp (- size_transition_speed w * dt))\<rparr>)
      else w)"

text \<open>\<open>math.dist\<close> of two points of the plane.\<close>

definition math_dist :: "int \<times> int \<Rightarrow> int \<times> int \<Rightarrow> real" where
  "math_dist p q = sqrt ((real_of_int (fst p) - real_of_int (fst q))\<^sup>2
                       + (real_of_int (snd p) - real_of_int (snd q))\<^sup>2)"

definition handle_window_click ::
  "int \<times> int \<Rightarrow> 'a circular_window_scheme \<Rightarrow> bool \<times> 'a circular_window_scheme" where
  "handle_window_click pos w =
     (if \<not> expanded w then
        (let center = (win_size w div 2, win_size w div 2)
         in if math_dist pos center \<le> current_radius w then
              (if math_dist pos center \<le> current_radius w / 3
               then (True, w\<lparr>expanded := True, target_radius := real_of_int (max_radius w)\<rparr>)
               else (False, w))
            else (False, w))
      else (False, w))"

text \<open>
  One iteration of the event loop of \<open>process_parent_events\<close>. The first component is
  \<open>Some b\<close> when the iteration executes \<open>return b\<close>, and \<open>None\<close> when the loop goes on
  to the next event.
\<close>

fun process_event ::
  "event \<Rightarrow> 'a circular_window_scheme \<Rightarrow> bool option \<times> 'a circular_window_scheme" where
  "process_event QUIT w = (Some False, w)"
| "process_event (KEYDOWN key) w =
     (if key = K_ESCAPE then
        (if \<not> escape_held w
         then (case time_time (os w) of (now, os') \<Rightarrow>
                 (None, w\<lparr>os := os', escape_start := Some now, escape_held := True\<rparr>))
         else (None, w))
      else (None, w))"
| "process_event (KEYUP key) w =
     (if key = K_ESCAPE
      then (None, w\<lparr>escape_held := False, escape_start := None\<rparr>)
      else (None, w))"
| "process_event (MOUSEBUTTONDOWN button pos) w =
     (if button = 1 then
        (case handle_window_click pos w of
           (True, w1) \<Rightarrow> (None, w1)
         | (False, w1) \<Rightarrow>
             (let center = (win_size w1 div 2, win_size w1 div 2)
              in if math_dist pos center \<le> current_radius w1 then
                   (let win_rect = GetWindowRect (os w1)
                    in (case get_cursor_pos w1 of ((cursor_x, cursor_y), w2) \<Rightarrow>
                          (None, w2\<lparr>drag_offset :=
                                      Some (cursor_x - fst win_rect,
                                            cursor_y - fst (snd win_rect)),
                                    dragging := True\<rparr>)))
                 else (None, w1)))
      else (None, w))"
| "process_event (MOUSEBUTTONUP button pos) w =
     (if button = 1
      then (None, w\<lparr>dragging := False, drag_offset := None\<rparr>)
      else (None, w))"
| "process_event (MOUSEMOTION pos) w =
     (if dragging w then (None, update_window_pos w) else (None, w))"
| "process_event (OTHER ty) w = (None, w)"

fun events_loop ::
  "event list \<Rightarrow> 'a circular_window_scheme \<Rightarrow> bool option \<times> 'a circular_window_scheme" where
  "events_loop [] w = (None, w)"
| "events_loop (e # es) w =
     (case process_event e w of
        (Some b, w') \<Rightarrow> (Some b, w')
      | (None, w') \<Rightarrow> events_loop es w')"

text \<open>The focus check that opens \<open>process_parent_events\<close>.\<close>

definition focus_update :: "'a circular_window_scheme \<Rightarrow> 'a circular_window_scheme" where
  "focus_update w =
     (let w1 = w\<lparr>has_focus := (hwnd w = GetForegroundWindow (os w))\<rparr>
      in if \<not> has_focus w1 \<and> expanded w1
         then w1\<lparr>expanded := False, target_radius := real_of_int (min_radius w1)\<rparr>
         else w1)"

text \<open>The hold check that closes \<open>process_parent_events\<close>.\<close>

definition escape_check ::
  "'a circular_window_scheme \<Rightarrow> bool \<times> 'a circular_window_scheme" where
  "escape_check w =
     (if escape_held w \<and> escape_start w \<noteq> None then
        (case time_time (os w) of (now, os') \<Rightarrow>
           (if now - the (escape_start w) \<ge> escape_duration w
            then (False, w\<lparr>os := os'\<rparr>)
            else (True, w\<lparr>os := os'\<rparr>)))
      else (True, w))"

text \<open>
  \<open>process_parent_events\<close>: \<open>False\<close> asks the caller to stop the frame loop,
  \<open>True\<close> to go on.
\<close>

definition process_parent_events ::
  "event list \<Rightarrow> 'a circular_window_scheme \<Rightarrow> bool \<times> 'a circular_window_scheme" where
  "process_parent_events events w =
     (case events_loop events (focus_update w) of
        (Some b, w') \<Rightarrow> (b, w')
      | (None, w') \<Rightarrow> escape_check w')"

section \<open>timer\_app.py: class TimerWindow and main\<close>

text \<open>A \<open>pygame.Rect\<close>; \<open>collidepoint\<close> excludes the right and the bottom edge.\<close>

record rect =
  rect_x :: int
  rect_y :: int
  rect_w :: int
  rect_h :: int

definition collidepoint :: "rect \<Rightarrow> int \<times> int \<Rightarrow> bool" where
  "collidepoint r p \<longleftrightarrow>
     rect_x r \<le> fst p \<and> fst p < rect_x r + rect_w r \<and>
     rect_y r \<le> snd p \<and> snd p < rect_y r + rect_h r"

text \<open>
  The fields of \<open>TimerWindow\<close> on top of those of \<open>CircularWindow\<close>; fonts, colour
  constants and the flash fields, which only rendering reads, are left out. The
  dictionary \<open>buttons\<close> is kept as an association list in insertion order, the order
  in which \<open>handle_button_click\<close> visits it.
\<close>

record timer_window = circular_window +
  bg_color :: "int list"
  seconds :: int
  running :: bool
  last_update :: real
  finished :: bool
  description :: "string option"
  buttons :: "(string \<times> rect) list"
  click_handled :: bool

text \<open>
  \<open>TimerWindow.__init__\<close>. The four button rectangles are built from float
  coordinates that pygame converts to integers; they are taken as the argument \<open>btns\<close>.
\<close>

definition TimerWindow_init ::
  "int \<Rightarrow> int \<Rightarrow> bool \<Rightarrow> int list \<Rightarrow> string option \<Rightarrow> (string \<times> rect) list
     \<Rightarrow> os_world \<Rightarrow> timer_window" where
  "TimerWindow_init sz initial_minutes autostart bg description' btns os0 =
     (let base = CircularWindow_init sz os0
      in case time_time (os base) of (now, os') \<Rightarrow>
           circular_window.extend (base\<lparr>os := os'\<rparr>)
             (timer_window.fields (bg @ [255])
                (max 60 (min 5400 (initial_minutes * 60)))
                autostart now False description' btns False))"

definition button_action :: "string \<Rightarrow> timer_window \<Rightarrow> timer_window" where
  "button_action btn_name w =
     (if btn_name = ''start'' then
        (case time_time (os w) of (now, os') \<Rightarrow>
           (let w1 = w\<lparr>os := os', running := \<not> running w, last_update := now\<rparr>
            in if finished w1 then w1\<lparr>finished := False\<rparr> else w1))
      else if btn_name = ''reset'' then
        w\<lparr>seconds := 300, running := False, finished := False\<rparr>
      else if btn_name = ''up'' \<and> \<not> running w then
        w\<lparr>seconds := min 5400 (seconds w + 60)\<rparr>
      else if btn_name = ''down'' \<and> \<not> running w then
        w\<lparr>seconds := max 60 (seconds w - 60)\<rparr>
      else w)"

fun buttons_loop ::
  "(string \<times> rect) list \<Rightarrow> int \<times> int \<Rightarrow> timer_window \<Rightarrow> bool \<times> timer_window" where
  "buttons_loop [] pos w = (False, w)"
| "buttons_loop ((btn_name, btn_rect) # bs) pos w =
     (if collidepoint btn_rect pos then (True, button_action btn_name w)
      else buttons_loop bs pos w)"

definition handle_button_click :: "int \<times> int \<Rightarrow> timer_window \<Rightarrow> bool \<times> timer_window" where
  "handle_button_click pos w =
     (if \<not> expanded w then (False, w) else buttons_loop (buttons w) pos w)"

text \<open>One iteration of the first loop of \<open>TimerWindow.handle_events\<close>.\<close>

fun timer_event :: "event \<Rightarrow> timer_window \<Rightarrow> timer_window" where
  "timer_event (MOUSEBUTTONDOWN button pos) w =
     (if button = 1 then
        (case handle_button_click pos w of
           (True, w1) \<Rightarrow> w1\<lparr>click_handled := True\<rparr>
         | (False, w1) \<Rightarrow> w1)
      else if (button = 4 \<or> button = 5) \<and> \<not> running w \<and> expanded w then
        (let direction = (if button = 4 then 1 else - 1)
         in w\<lparr>seconds := max 60 (min 5400 (seconds w + 60 * direction))\<rparr>)
      else w)"
| "timer_event (KEYDOWN key) w =
     (if key = K_RETURN \<and> \<not> running w
      then w\<lparr>seconds := 300, finished := False\<rparr>
      else w)"
| "timer_event e w = w"

fun timer_events_loop :: "event list \<Rightarrow> timer_window \<Rightarrow> timer_window" where
  "timer_events_loop [] w = w"
| "timer_events_loop (e # es) w = timer_events_loop es (timer_event e w)"

text \<open>
  \<open>TimerWindow.handle_events\<close> on the batch that \<open>pygame.event.get()\<close> returned:
  \<open>False\<close> stops the frame loop of \<open>main\<close>, \<open>True\<close> continues it.
\<close>

definition handle_events :: "event list \<Rightarrow> timer_window \<Rightarrow> bool \<times> timer_window" where
  "handle_events events w =
     (let w1 = timer_events_loop events (w\<lparr>click_handled := False\<rparr>)
      in if \<not> click_handled w1 then process_parent_events events w1
         else (True, w1))"

subsection \<open>The configuration boundary in main\<close>

datatype py_error = ValueError

text \<open>\<open>str.split(',')\<close>: one field more than there are commas.\<close>

fun split_comma :: "string \<Rightarrow> string list" where
  "split_comma [] = [[]]"
| "split_comma (c # cs) =
     (if c = CHR '','' then [] # split_comma cs
      else (case split_comma cs of
              f # fs \<Rightarrow> (c # f) # fs
            | [] \<Rightarrow> [[c]]))"

text \<open>
  The body of the \<open>try\<close> block. Python's built-in \<open>int\<close> on a string is the parameter
  \<open>py_int\<close>, with \<open>None\<close> where it raises \<open>ValueError\<close>.
\<close>

definition parse_color_try :: "(string \<Rightarrow> int option) \<Rightarrow> string \<Rightarrow> py_error + int list" where
  "parse_color_try py_int color =
     (case those (map py_int (split_comma color)) of
        None \<Rightarrow> Inl ValueError
      | Some bg \<Rightarrow>
          if length bg \<noteq> 3 \<or> \<not> list_all (\<lambda>x. 0 \<le> x \<and> x \<le> 255) bg
          then Inl ValueError
          else Inr bg)"

text \<open>The \<open>try\<close> statement with its handler.\<close>

definition parse_color :: "(string \<Rightarrow> int option) \<Rightarrow> string \<Rightarrow> int list" where
  "parse_color py_int color =
     (case parse_color_try py_int color of
        Inl ValueError \<Rightarrow> [0, 120, 255]
      | Inr bg \<Rightarrow> bg)"

text \<open>
  \<open>main\<close> up to the construction of the window, from the parsed arguments
  \<open>--minutes\<close>, \<open>--start\<close>, \<open>--color\<close> and \<open>--description\<close>.
\<close>

definition main_window ::
  "(string \<Rightarrow> int option) \<Rightarrow> int \<Rightarrow> bool \<Rightarrow> string \<Rightarrow> string option
     \<Rightarrow> (string \<times> rect) list \<Rightarrow> os_world \<Rightarrow> timer_window" where
  "main_window py_int minutes start color description' btns os0 =
     TimerWindow_init 400 minutes start (parse_color py_int color) description' btns os0"

section \<open>Notions used by the properties\<close>

text \<open>
  A qualifying activation click: a primary pointer-down within a third of the current
  radius of the centre of the window.
\<close>

definition activation_click :: "'a circular_window_scheme \<Rightarrow> event \<Rightarrow> bool" where
  "activation_click w e =
     (case e of
        MOUSEBUTTONDOWN button pos \<Rightarrow>
          button = 1 \<and>
          math_dist pos (win_size w div 2, win_size w div 2) \<le> current_radius w / 3
      | _ \<Rightarrow> False)"

text \<open>
  \<open>held_since k0 w\<close>: at least \<open>k0\<close> clock reads have happened, and if the close key
  counts as held, the recorded start of the hold is a clock read numbered \<open>k0\<close> or
  later.
\<close>

definition held_since :: "nat \<Rightarrow> 'a circular_window_scheme \<Rightarrow> bool" where
  "held_since k0 w \<longleftrightarrow>
     k0 \<le> clock_reads (os w) \<and>
     (escape_held w \<longrightarrow>
        (\<exists>k. k0 \<le> k \<and> k < clock_reads (os w) \<and> escape_start w = Some (clock (os w) k)))"

subsection \<open>Example states\<close>

text \<open>
  A stand-in for Python's \<open>int\<close> on plain decimal strings, for the examples only; the
  properties below hold for every \<open>py_int\<close>.
\<close>

definition decimal :: "string \<Rightarrow> int option" where
  "decimal s =
     (if s \<noteq> [] \<and> list_all (\<lambda>c. c \<in> set ''0123456789'') s
      then Some (foldl (\<lambda>a c. 10 * a + (of_char c - 48)) 0 s)
      else None)"

text \<open>
  A 1920 x 1080 screen, a clock that advances a quarter of a second per read and a
  cursor that moves one pixel to the right per read.
\<close>

definition example_os :: os_world where
  "example_os =
     \<lparr>clock = (\<lambda>n. 100 + real n / 4), clock_reads = 0,
      cursor = (\<lambda>n. (900 + int n, 500)), cursor_reads = 0,
      foreground = 7, screen_width = 1920, screen_height = 1080,
      win_x = 0, win_y = 0, win_cx = 0, win_cy = 0, win_after = 0, win_shown = False\<rparr>"

text \<open>The button rectangles as \<open>draw\<close> leaves them at full radius for size 400.\<close>

definition example_buttons :: "(string \<times> rect) list" where
  "example_buttons =
     [(''start'', \<lparr>rect_x = 150, rect_y = 264, rect_w = 100, rect_h = 33\<rparr>),
      (''reset'', \<lparr>rect_x = 150, rect_y = 304, rect_w = 100, rect_h = 33\<rparr>),
      (''up'', \<lparr>rect_x = 284, rect_y = 184, rect_w = 33, rect_h = 33\<rparr>),
      (''down'', \<lparr>rect_x = 84, rect_y = 184, rect_w = 33, rect_h = 33\<rparr>)]"

definition example_timer :: timer_window where
  "example_timer = main_window decimal 5 False ''0,120,255'' None example_buttons example_os"

definition example_window :: circular_window where
  "example_window = CircularWindow_init 400 example_os"

definition example_holding :: circular_window where
  "example_holding = snd (process_event (KEYDOWN K_ESCAPE) example_window)"

definition example_collapsed :: circular_window where
  "example_collapsed =
     example_window\<lparr>expanded := False, target_radius := 80, current_radius := 80\<rparr>"

definition example_dragging :: circular_window where
  "example_dragging = snd (process_event (MOUSEBUTTONDOWN 1 (230, 240)) example_window)"

text \<open>The hold of \<open>example_holding\<close>, seen after five more clock reads and after two.\<close>

definition example_due :: circular_window where
  "example_due = example_holding\<lparr>os := (os example_holding)\<lparr>clock_reads := 6\<rparr>\<rparr>"

definition example_early :: circular_window where
  "example_early = example_holding\<lparr>os := (os example_holding)\<lparr>clock_reads := 3\<rparr>\<rparr>"

text \<open>A hold whose start is the clock read number 1, seen when 8 reads have happened.\<close>

definition example_rehold :: circular_window where
  "example_rehold =
     example_window\<lparr>os := (os example_window)\<lparr>clock_reads := 8\<rparr>,
                    escape_start := Some (clock example_os 1), escape_held := True\<rparr>"

definition example_unfocused :: circular_window where
  "example_unfocused = example_window\<lparr>os := (os example_window)\<lparr>foreground := 8\<rparr>\<rparr>"

definition example_shrinking :: circular_window where
  "example_shrinking = example_window\<lparr>expanded := False, target_radius := 80\<rparr>"

definition example_timer_holding :: timer_window where
  "example_timer_holding = snd (handle_events [KEYDOWN K_ESCAPE] example_timer)"

section \<open>Auxiliary facts\<close>

subsection \<open>Window placement\<close>

lemma SetWindowPos_drag:
  "SetWindowPos a x y cx cy (SWP_NOSIZE OR SWP_NOZORDER) ow = ow\<lparr>win_x := x, win_y := y\<rparr>"
  by (simp add: SetWindowPos_def SWP_NOSIZE_def SWP_NOZORDER_def SWP_NOMOVE_def
      SWP_SHOWWINDOW_def)

lemma SetWindowPos_show:
  "SetWindowPos a x y cx cy SWP_SHOWWINDOW ow =
     ow\<lparr>win_x := x, win_y := y, win_cx := cx, win_cy := cy, win_after := a, win_shown := True\<rparr>"
  by (simp add: SetWindowPos_def SWP_NOSIZE_def SWP_NOZORDER_def SWP_NOMOVE_def
      SWP_SHOWWINDOW_def)

subsection \<open>What one pass over the events keeps\<close>

lemma process_event_return:
  "fst (process_event e w) = (if e = QUIT then Some False else None)"
  by (cases e) (auto simp: handle_window_click_def Let_def split: prod.splits bool.splits)

lemma events_loop_return:
  "fst (events_loop evs w) = (if QUIT \<in> set evs then Some False else None)"
proof (induction evs arbitrary: w)
  case Nil
  show ?case by simp
next
  case (Cons e evs)
  obtain r w' where pe: "process_event e w = (r, w')" by (cases "process_event e w")
  have r: "r = (if e = QUIT then Some False else None)"
    using process_event_return [of e w] pe by simp
  show ?case
    using Cons.IH [of w'] pe r by (auto split: option.splits)
qed

lemma update_window_pos_frame:
  "clock (os (update_window_pos w)) = clock (os w) \<and>
   clock_reads (os (update_window_pos w)) = clock_reads (os w) \<and>
   escape_held (update_window_pos w) = escape_held w \<and>
   escape_start (update_window_pos w) = escape_start w \<and>
   escape_duration (update_window_pos w) = escape_duration w \<and>
   expanded (update_window_pos w) = expanded w \<and>
   target_radius (update_window_pos w) = target_radius w \<and>
   current_radius (update_window_pos w) = current_radius w \<and>
   win_size (update_window_pos w) = win_size w"
  by (simp add: update_window_pos_def get_cursor_pos_def GetCursorPos_def SetWindowPos_drag
      split: prod.splits)

lemma process_event_frame:
  assumes "process_event e w = (r, w')"
  shows "clock (os w') = clock (os w) \<and> clock_reads (os w) \<le> clock_reads (os w') \<and>
         escape_duration w' = escape_duration w \<and> current_radius w' = current_radius w \<and>
         win_size w' = win_size w"
  using assms
  by (cases e)
     (auto simp: handle_window_click_def Let_def get_cursor_pos_def GetCursorPos_def
        time_time_def update_window_pos_frame
        split: prod.splits bool.splits if_splits)

lemma events_loop_frame:
  assumes "events_loop evs w = (r, w')"
  shows "clock (os w') = clock (os w) \<and> clock_reads (os w) \<le> clock_reads (os w') \<and>
         escape_duration w' = escape_duration w \<and> current_radius w' = current_radius w \<and>
         win_size w' = win_size w"
  using assms
proof (induction evs arbitrary: w)
  case Nil
  then show ?case by simp
next
  case (Cons e evs)
  obtain r1 w1 where pe: "process_event e w = (r1, w1)" by (cases "process_event e w")
  note f1 = process_event_frame [OF pe]
  show ?case
  proof (cases r1)
    case None
    with Cons.prems pe have "events_loop evs w1 = (r, w')" by simp
    from Cons.IH [OF this] f1 show ?thesis by simp
  next
    case (Some b)
    with Cons.prems pe have "w' = w1" by simp
    with f1 show ?thesis by simp
  qed
qed

lemma focus_update_frame:
  "os (focus_update w) = os w \<and> escape_held (focus_update w) = escape_held w \<and>
   escape_start (focus_update w) = escape_start w \<and>
   escape_duration (focus_update w) = escape_duration w \<and>
   current_radius (focus_update w) = current_radius w \<and>
   win_size (focus_update w) = win_size w"
  by (simp add: focus_update_def Let_def)

lemma escape_check_frame:
  "expanded (snd (escape_check w)) = expanded w \<and>
   target_radius (snd (escape_check w)) = target_radius w"
  by (simp add: escape_check_def split: prod.splits)

lemma math_dist_nonneg: "0 \<le> math_dist p q"
  by (simp add: math_dist_def)

subsection \<open>A hold that no key-up interrupts\<close>

lemma process_event_hold:
  assumes "process_event e w = (None, w')" and "escape_held w" and "e \<noteq> KEYUP K_ESCAPE"
  shows "escape_held w' \<and> escape_start w' = escape_start w \<and>
         clock_reads (os w') = clock_reads (os w)"
  using assms
  by (cases e)
     (auto simp: handle_window_click_def Let_def get_cursor_pos_def GetCursorPos_def
        update_window_pos_frame
        split: prod.splits bool.splits if_splits)

lemma events_loop_hold:
  assumes "events_loop evs w = (None, w')" and "escape_held w"
    and "\<forall>e\<in>set evs. e \<noteq> KEYUP K_ESCAPE"
  shows "escape_held w' \<and> escape_start w' = escape_start w \<and>
         clock_reads (os w') = clock_reads (os w)"
  using assms
proof (induction evs arbitrary: w)
  case Nil
  then show ?case by simp
next
  case (Cons e evs)
  obtain r1 w1 where pe: "process_event e w = (r1, w1)" by (cases "process_event e w")
  with Cons.prems(1) have r1: "r1 = None" and rest: "events_loop evs w1 = (None, w')"
    by (auto split: option.splits)
  from pe r1 Cons.prems have h1: "escape_held w1 \<and> escape_start w1 = escape_start w \<and>
         clock_reads (os w1) = clock_reads (os w)"
    using process_event_hold [of e w w1] by simp
  from Cons.IH [OF rest] h1 Cons.prems(3) show ?case by simp
qed

subsection \<open>The start of a hold is read after the last release\<close>

lemma process_event_held_since:
  assumes "process_event e w = (r, w')" and "held_since k0 w"
  shows "held_since k0 w'"
  using assms
  by (cases e)
     (auto simp: held_since_def handle_window_click_def Let_def get_cursor_pos_def
        GetCursorPos_def time_time_def update_window_pos_frame
        split: prod.splits bool.splits if_splits)

lemma events_loop_held_since:
  assumes "events_loop evs w = (r, w')" and "held_since k0 w"
  shows "held_since k0 w'"
  using assms
proof (induction evs arbitrary: w)
  case Nil
  then show ?case by simp
next
  case (Cons e evs)
  obtain r1 w1 where pe: "process_event e w = (r1, w1)" by (cases "process_event e w")
  from process_event_held_since [OF pe Cons.prems(2)] have h1: "held_since k0 w1" .
  show ?case
  proof (cases r1)
    case None
    with Cons.prems pe have "events_loop evs w1 = (r, w')" by simp
    from Cons.IH [OF this h1] show ?thesis .
  next
    case (Some b)
    with Cons.prems pe have "w' = w1" by simp
    with h1 show ?thesis by simp
  qed
qed

lemma focus_update_held_since: "held_since k0 w \<Longrightarrow> held_since k0 (focus_update w)"
  by (simp add: held_since_def focus_update_def Let_def)

subsection \<open>A collapsed window stays collapsed without an activation click\<close>

lemma process_event_collapsed:
  assumes "process_event e w = (r, w')" and "\<not> expanded w" and "\<not> activation_click w e"
  shows "\<not> expanded w' \<and> target_radius w' = target_radius w"
  using assms
  by (cases e)
     (auto simp: activation_click_def handle_window_click_def Let_def get_cursor_pos_def
        GetCursorPos_def update_window_pos_frame
        split: prod.splits bool.splits if_splits)

lemma activation_click_cong:
  "current_radius w' = current_radius w \<Longrightarrow> win_size w' = win_size w \<Longrightarrow>
   activation_click w' e = activation_click w e"
  by (simp add: activation_click_def split: event.splits)

lemma events_loop_collapsed:
  assumes "events_loop evs w = (r, w')" and "\<not> expanded w"
    and "\<forall>e\<in>set evs. \<not> activation_click w e"
  shows "\<not> expanded w' \<and> target_radius w' = target_radius w"
  using assms
proof (induction evs arbitrary: w)
  case Nil
  then show ?case by simp
next
  case (Cons e evs)
  obtain r1 w1 where pe: "process_event e w = (r1, w1)" by (cases "process_event e w")
  from Cons.prems(3) have na: "\<not> activation_click w e" by simp
  from process_event_collapsed [OF pe Cons.prems(2) na]
  have c1: "\<not> expanded w1" "target_radius w1 = target_radius w" by simp_all
  from process_event_frame [OF pe]
  have same: "current_radius w1 = current_radius w" "win_size w1 = win_size w" by simp_all
  show ?case
  proof (cases r1)
    case None
    with Cons.prems pe have el: "events_loop evs w1 = (r, w')" by simp
    from Cons.prems(3) have "\<forall>e\<in>set evs. \<not> activation_click w1 e"
      using activation_click_cong [OF same] by simp
    from Cons.IH [OF el c1(1) this] c1(2) show ?thesis by simp
  next
    case (Some b)
    with Cons.prems pe have "w' = w1" by simp
    with c1 show ?thesis by simp
  qed
qed

subsection \<open>Interpolation\<close>

lemma smoothing_factor:
  assumes "0 \<le> (v::real)"
  shows "0 \<le> 1 - exp (- v * (1 / 60))" and "1 - exp (- v * (1 / 60)) \<le> 1"
  using assms by simp_all

lemma lerp_between:
  assumes "0 \<le> t" and "t \<le> 1"
  shows "(a \<le> b \<longrightarrow> a \<le> lerp a b t \<and> lerp a b t \<le> b) \<and>
         (b \<le> a \<longrightarrow> b \<le> lerp a b t \<and> lerp a b t \<le> a)"
proof -
  have e1: "lerp a b t - a = (b - a) * t" by (simp add: lerp_def)
  have e2: "b - lerp a b t = (b - a) * (1 - t)" by (simp add: lerp_def algebra_simps)
  have up: "a \<le> lerp a b t \<and> lerp a b t \<le> b" if "a \<le> b"
  proof -
    from that assms have "0 \<le> (b - a) * t" "0 \<le> (b - a) * (1 - t)" by simp_all
    with e1 e2 show ?thesis by linarith
  qed
  have down: "b \<le> lerp a b t \<and> lerp a b t \<le> a" if "b \<le> a"
  proof -
    from that assms have "(b - a) * t \<le> 0" "(b - a) * (1 - t) \<le> 0"
      by (simp_all add: mult_nonpos_nonneg)
    with e1 e2 show ?thesis by linarith
  qed
  show ?thesis using up down by blast
qed

lemma update_size_step:
  assumes "0 \<le> size_transition_speed w"
  shows "target_radius (update_size w) = target_radius w \<and>
         size_transition_speed (update_size w) = size_transition_speed w \<and>
         min_radius (update_size w) = min_radius w \<and>
         max_radius (update_size w) = max_radius w \<and>
         (current_radius w \<le> target_radius w \<longrightarrow>
            current_radius w \<le> current_radius (update_size w) \<and>
            current_radius (update_size w) \<le> target_radius w) \<and>
         (target_radius w \<le> current_radius w \<longrightarrow>
            target_radius w \<le> current_radius (update_size w) \<and>
            current_radius (update_size w) \<le> current_radius w)"
  using lerp_between [OF smoothing_factor [OF assms], of "current_radius w" "target_radius w"]
  by (simp add: update_size_def Let_def)

lemma update_size_iter:
  assumes "0 \<le> size_transition_speed w"
  shows "target_radius ((update_size ^^ n) w) = target_radius w \<and>
         size_transition_speed ((update_size ^^ n) w) = size_transition_speed w \<and>
         min_radius ((update_size ^^ n) w) = min_radius w \<and>
         max_radius ((update_size ^^ n) w) = max_radius w \<and>
         (current_radius w \<le> target_radius w \<longrightarrow>
            current_radius w \<le> current_radius ((update_size ^^ n) w) \<and>
            current_radius ((update_size ^^ n) w) \<le> target_radius w) \<and>
         (target_radius w \<le> current_radius w \<longrightarrow>
            target_radius w \<le> current_radius ((update_size ^^ n) w) \<and>
            current_radius ((update_size ^^ n) w) \<le> current_radius w)"
proof (induction n)
  case 0
  show ?case by simp
next
  case (Suc n)
  let ?v = "(update_size ^^ n) w"
  from Suc.IH assms have sp: "0 \<le> size_transition_speed ?v" by simp
  from update_size_step [OF sp] Suc.IH show ?case by (simp; linarith)
qed

text \<open>The state that the constructor builds for a non-negative size is such a state.\<close>

lemma CircularWindow_init_radius_state:
  assumes "0 \<le> sz"
  shows "real_of_int (min_radius (CircularWindow_init sz ow))
           \<le> current_radius (CircularWindow_init sz ow) \<and>
         current_radius (CircularWindow_init sz ow)
           \<le> real_of_int (max_radius (CircularWindow_init sz ow)) \<and>
         target_radius (CircularWindow_init sz ow)
           = real_of_int (max_radius (CircularWindow_init sz ow)) \<and>
         0 \<le> size_transition_speed (CircularWindow_init sz ow)"
proof -
  from assms have "sz div 5 \<le> sz div 2" by (intro zdiv_mono2) simp_all
  then show ?thesis by (simp add: CircularWindow_init_def)
qed

subsection \<open>Colour parsing\<close>

lemma those_length: "those ys = Some zs \<Longrightarrow> length ys = length zs"
  by (induction ys arbitrary: zs) (auto split: option.splits)

lemma those_three:
  assumes "those (map f xs) = Some bg" and "length bg = 3"
  shows "\<exists>x y z r g b. xs = [x, y, z] \<and> bg = [r, g, b] \<and>
           f x = Some r \<and> f y = Some g \<and> f z = Some b"
proof -
  from those_length [OF assms(1)] assms(2) have "length xs = 3" by simp
  then obtain x y z where xs: "xs = [x, y, z]"
    by (auto simp: length_Suc_conv numeral_3_eq_3)
  with assms(1) show ?thesis by (auto split: option.splits)
qed

lemma parse_color_cases:
  "parse_color py_int color = [0, 120, 255] \<or>
   (\<exists>x y z r g b. split_comma color = [x, y, z] \<and>
      py_int x = Some r \<and> py_int y = Some g \<and> py_int z = Some b \<and>
      0 \<le> r \<and> r \<le> 255 \<and> 0 \<le> g \<and> g \<le> 255 \<and> 0 \<le> b \<and> b \<le> 255 \<and>
      parse_color py_int color = [r, g, b])"
proof (cases "parse_color_try py_int color")
  case (Inl e)
  then show ?thesis by (cases e) (simp add: parse_color_def)
next
  case (Inr bg)
  then obtain th: "those (map py_int (split_comma color)) = Some bg"
    and len: "length bg = 3" and rng: "list_all (\<lambda>x. 0 \<le> x \<and> x \<le> 255) bg"
    by (auto simp: parse_color_try_def split: option.splits if_splits)
  from those_three [OF th len] obtain x y z r g b where
    "split_comma color = [x, y, z]" "bg = [r, g, b]"
    "py_int x = Some r" "py_int y = Some g" "py_int z = Some b" by blast
  with rng Inr show ?thesis by (simp add: parse_color_def)
qed

lemma parse_color_accepts:
  assumes "split_comma color = [x, y, z]"
    and "py_int x = Some r" "py_int y = Some g" "py_int z = Some b"
    and "0 \<le> r" "r \<le> 255" "0 \<le> g" "g \<le> 255" "0 \<le> b" "b \<le> 255"
  shows "parse_color py_int color = [r, g, b]"
  using assms by (simp add: parse_color_def parse_color_try_def)

lemma main_window_fields:
  "seconds (main_window py_int minutes start color desc btns ow) = max 60 (min 5400 (minutes * 60)) \<and>
   bg_color (main_window py_int minutes start color desc btns ow) = parse_color py_int color @ [255]"
  by (simp add: main_window_def TimerWindow_init_def Let_def circular_window.defs
      timer_window.defs split: prod.splits)

subsection \<open>The decision of the parent dispatch and of the timer dispatch\<close>

text \<open>
  \<open>process_parent_events\<close> asks to stop exactly when the batch holds a quit event or
  the hold has lasted for the threshold at the final check.
\<close>

lemma process_parent_events_stop:
  "fst (process_parent_events evs w) = False \<longleftrightarrow>
     QUIT \<in> set evs \<or>
     (let w' = snd (events_loop evs (focus_update w))
      in escape_held w' \<and> escape_start w' \<noteq> None \<and>
         clock (os w') (clock_reads (os w')) - the (escape_start w') \<ge> escape_duration w')"
proof -
  obtain r w' where el: "events_loop evs (focus_update w) = (r, w')"
    by (cases "events_loop evs (focus_update w)")
  have r: "r = (if QUIT \<in> set evs then Some False else None)"
    using events_loop_return [of evs "focus_update w"] el by simp
  show ?thesis
    using el r
    by (auto simp: process_parent_events_def escape_check_def time_time_def Let_def
        split: if_splits)
qed

text \<open>
  Once a button has taken a click of the batch, \<open>TimerWindow.handle_events\<close> answers
  \<open>True\<close> and the parent never sees the batch.
\<close>

lemma handle_events_consumed:
  assumes "click_handled (timer_events_loop evs (w\<lparr>click_handled := False\<rparr>))"
  shows "handle_events evs w = (True, timer_events_loop evs (w\<lparr>click_handled := False\<rparr>))"
  using assms by (simp add: handle_events_def Let_def)

subsection \<open>The example states, evaluated\<close>

lemma math_dist_example: "math_dist (230, 240) (200, 200) = 50"
proof -
  have "sqrt (50\<^sup>2) = 50" by (rule real_sqrt_abs2 [of 50, simplified] real_sqrt_unique) simp_all
  then show ?thesis by (simp add: math_dist_def)
qed

lemma math_dist_same: "math_dist p p = 0"
  by (simp add: math_dist_def)

lemma example_window_eq:
  "example_window =
    \<lparr>os = example_os\<lparr>win_x := 760, win_y := 340, win_cx := 400, win_cy := 400,
                      win_after := - 1, win_shown := True\<rparr>,
      win_size = 400, hwnd = 7, dragging = False, drag_offset = None,
      escape_start = None, escape_held = False, escape_duration = 1.5, has_focus = True,
      max_radius = 200, min_radius = 80, current_radius = 200, target_radius = 200,
      size_transition_speed = 8, expanded = True\<rparr>"
  by (simp add: example_window_def CircularWindow_init_def SetWindowPos_show HWND_TOPMOST_def
      GetForegroundWindow_def example_os_def)

lemma example_timer_eq:
  "example_timer =
    \<lparr>os = example_os\<lparr>clock_reads := 1, win_x := 760, win_y := 340, win_cx := 400, win_cy := 400,
                      win_after := - 1, win_shown := True\<rparr>,
      win_size = 400, hwnd = 7, dragging = False, drag_offset = None,
      escape_start = None, escape_held = False, escape_duration = 1.5, has_focus = True,
      max_radius = 200, min_radius = 80, current_radius = 200, target_radius = 200,
      size_transition_speed = 8, expanded = True,
      bg_color = [0, 120, 255, 255], seconds = 300, running = False, last_update = 100,
      finished = False, description = None, buttons = example_buttons, click_handled = False\<rparr>"
  by (simp add: example_timer_def main_window_def TimerWindow_init_def CircularWindow_init_def
      SetWindowPos_show HWND_TOPMOST_def GetForegroundWindow_def example_os_def time_time_def
      parse_color_def parse_color_try_def decimal_def
      circular_window.defs timer_window.defs)

lemma example_holding_eq:
  "example_holding =
     example_window\<lparr>os := (os example_window)\<lparr>clock_reads := 1\<rparr>,
                    escape_start := Some 100, escape_held := True\<rparr>"
  by (simp add: example_holding_def example_window_eq time_time_def example_os_def)

lemma example_dragging_eq:
  "example_dragging =
     example_window\<lparr>os := (os example_window)\<lparr>cursor_reads := 1\<rparr>,
                    drag_offset := Some (140, 160), dragging := True\<rparr>"
  by (simp add: example_dragging_def example_window_eq handle_window_click_def
      math_dist_example get_cursor_pos_def GetCursorPos_def GetWindowRect_def example_os_def)

lemma example_collapsed_eq:
  "example_collapsed =
    \<lparr>os = example_os\<lparr>win_x := 760, win_y := 340, win_cx := 400, win_cy := 400,
                      win_after := - 1, win_shown := True\<rparr>,
      win_size = 400, hwnd = 7, dragging = False, drag_offset = None,
      escape_start = None, escape_held = False, escape_duration = 1.5, has_focus = True,
      max_radius = 200, min_radius = 80, current_radius = 80, target_radius = 80,
      size_transition_speed = 8, expanded = False\<rparr>"
  by (simp add: example_collapsed_def example_window_eq)

lemma keys_distinct: "K_ESCAPE \<noteq> K_RETURN" "K_RETURN \<noteq> K_ESCAPE"
  by (simp_all add: K_ESCAPE_def K_RETURN_def)

lemma example_timer_holding_eq:
  "example_timer_holding =
     example_timer\<lparr>os := (os example_timer)\<lparr>clock_reads := 3\<rparr>,
                   escape_start := Some (401 / 4), escape_held := True\<rparr>"
  by (simp add: example_timer_holding_def example_timer_eq handle_events_def
      process_parent_events_def focus_update_def GetForegroundWindow_def escape_check_def
      time_time_def keys_distinct Let_def example_os_def del: not_None_eq)

section \<open>The properties\<close>

text \<open>
  C10. A key-down of the close key that arrives while the key already counts as held
  (an OS key repeat) changes nothing: \<open>escape_start\<close>, \<open>escape_held\<close> and the whole
  state stay as they are, for one such event and for any run of them.
\<close>

theorem repeated_keydown_keeps_hold: "escape_held w \<Longrightarrow>
   process_event (KEYDOWN K_ESCAPE) w = (None, w) \<and>
   events_loop (replicate n (KEYDOWN K_ESCAPE)) w = (None, w)"
  by (induction n) simp_all

theorem repeated_keydown_keeps_hold_witness:
  "escape_held example_holding \<and>
   process_event (KEYDOWN K_ESCAPE) example_holding = (None, example_holding) \<and>
   events_loop (replicate 3 (KEYDOWN K_ESCAPE)) example_holding = (None, example_holding)"
proof -
  have h: "escape_held example_holding" by (simp add: example_holding_eq)
  from repeated_keydown_keeps_hold [OF h, of 3] h show ?thesis by blast
qed

text \<open>
  C8. While a drag is active with captured offset \<open>(ox, oy)\<close>, a pointer-move processed
  when the cursor is at \<open>(x, y)\<close> puts the top-left corner of the window at
  \<open>(x - ox, y - oy)\<close> and leaves the size of the window and its place in the z-order
  as they were.
\<close>

theorem drag_move_repositions:
  assumes "dragging w" and "drag_offset w = Some (ox, oy)"
    and "cursor (os w) (cursor_reads (os w)) = (x, y)"
  shows "\<exists>w'. process_event (MOUSEMOTION pos) w = (None, w') \<and>
           win_x (os w') = x - ox \<and> win_y (os w') = y - oy \<and>
           win_cx (os w') = win_cx (os w) \<and> win_cy (os w') = win_cy (os w) \<and>
           win_after (os w') = win_after (os w)"
  using assms
  by (simp add: update_window_pos_def get_cursor_pos_def GetCursorPos_def SetWindowPos_drag)

theorem drag_move_repositions_witness:
  "dragging example_dragging \<and> drag_offset example_dragging = Some (140, 160) \<and>
   cursor (os example_dragging) (cursor_reads (os example_dragging)) = (901, 500) \<and>
   (\<exists>w'. process_event (MOUSEMOTION (231, 240)) example_dragging = (None, w') \<and>
      win_x (os w') = 761 \<and> win_y (os w') = 340 \<and>
      win_cx (os w') = 400 \<and> win_cy (os w') = 400 \<and> win_after (os w') = - 1)"
proof -
  have h1: "dragging example_dragging" by (simp add: example_dragging_eq)
  have h2: "drag_offset example_dragging = Some (140, 160)" by (simp add: example_dragging_eq)
  have h3: "cursor (os example_dragging) (cursor_reads (os example_dragging)) = (901, 500)"
    by (simp add: example_dragging_eq example_window_eq example_os_def)
  have sz: "win_cx (os example_dragging) = 400" "win_cy (os example_dragging) = 400"
    "win_after (os example_dragging) = - 1"
    by (simp_all add: example_dragging_eq example_window_eq example_os_def)
  from drag_move_repositions [OF h1 h2 h3, of "(231, 240)"] h1 h2 h3 sz show ?thesis by simp
qed

text \<open>
  C5. While the window is collapsed, a primary pointer-down at distance \<open>d\<close> from the
  centre with \<open>d \<le> current_radius / 3\<close> is consumed by \<open>handle_window_click\<close>, which
  sets \<open>expanded\<close> and makes \<open>max_radius\<close> the target, and the press starts no drag
  (nothing else changes). With \<open>current_radius / 3 < d \<le> current_radius\<close> the click is
  not consumed, and the press records the offset of the cursor from the top-left corner
  of the window and sets \<open>dragging\<close>.
\<close>

theorem collapsed_click_activates_or_drags:
  assumes "\<not> expanded w"
    and d_def: "d = math_dist pos (win_size w div 2, win_size w div 2)"
  shows "(d \<le> current_radius w / 3 \<longrightarrow>
            handle_window_click pos w =
              (True, w\<lparr>expanded := True, target_radius := real_of_int (max_radius w)\<rparr>) \<and>
            process_event (MOUSEBUTTONDOWN 1 pos) w =
              (None, w\<lparr>expanded := True, target_radius := real_of_int (max_radius w)\<rparr>)) \<and>
         (current_radius w / 3 < d \<and> d \<le> current_radius w \<longrightarrow>
            handle_window_click pos w = (False, w) \<and>
            process_event (MOUSEBUTTONDOWN 1 pos) w =
              (None, w\<lparr>os := (os w)\<lparr>cursor_reads := Suc (cursor_reads (os w))\<rparr>,
                       drag_offset :=
                         Some (fst (cursor (os w) (cursor_reads (os w))) - win_x (os w),
                               snd (cursor (os w) (cursor_reads (os w))) - win_y (os w)),
                       dragging := True\<rparr>))"
proof -
  have nn: "0 \<le> d" unfolding d_def by (rule math_dist_nonneg)
  have a: "d \<le> current_radius w / 3 \<Longrightarrow> d \<le> current_radius w"
    using nn by linarith
  show ?thesis
    using assms(1) a
    by (auto simp: handle_window_click_def d_def Let_def get_cursor_pos_def GetCursorPos_def
        GetWindowRect_def split: prod.splits)
qed

theorem collapsed_click_activates_or_drags_witness:
  "\<not> expanded example_collapsed \<and>
   math_dist (200, 200) (win_size example_collapsed div 2, win_size example_collapsed div 2)
     \<le> current_radius example_collapsed / 3 \<and>
   process_event (MOUSEBUTTONDOWN 1 (200, 200)) example_collapsed =
     (None, example_collapsed\<lparr>expanded := True, target_radius := 200\<rparr>) \<and>
   current_radius example_collapsed / 3
     < math_dist (230, 240) (win_size example_collapsed div 2, win_size example_collapsed div 2) \<and>
   math_dist (230, 240) (win_size example_collapsed div 2, win_size example_collapsed div 2)
     \<le> current_radius example_collapsed \<and>
   process_event (MOUSEBUTTONDOWN 1 (230, 240)) example_collapsed =
     (None, example_collapsed\<lparr>os := (os example_collapsed)\<lparr>cursor_reads := 1\<rparr>,
                              drag_offset := Some (140, 160), dragging := True\<rparr>)"
proof -
  have h: "\<not> expanded example_collapsed" by (simp add: example_collapsed_eq)
  have c: "win_size example_collapsed div 2 = 200" "current_radius example_collapsed = 80"
    "max_radius example_collapsed = 200"
    by (simp_all add: example_collapsed_eq)
  have o: "cursor (os example_collapsed) 0 = (900, 500)"
    "win_x (os example_collapsed) = 760" "win_y (os example_collapsed) = 340"
    "cursor_reads (os example_collapsed) = 0"
    by (simp_all add: example_collapsed_eq example_os_def)
  have d1: "math_dist (200, 200) (200, 200) = 0" by (rule math_dist_same)
  note d2 = math_dist_example
  from collapsed_click_activates_or_drags [OF h refl, of "(200, 200)"]
       collapsed_click_activates_or_drags [OF h refl, of "(230, 240)"]
  show ?thesis
    using h by (simp add: c o d1 d2 del: process_event.simps)
qed

text \<open>
  C4. Let the close key count as held since \<open>s\<close>, let the batch hold no key-up of the
  close key, and let \<open>now\<close> be the next value of the clock. If \<open>now - s\<close> is exactly
  \<open>escape_duration\<close>, \<open>process_parent_events\<close> returns \<open>False\<close> (stop) and the progress
  fraction of \<open>draw_closing_animation\<close> is 1; if \<open>now - s\<close> is smaller, the progress is
  below 1 and, without a quit event, the frame returns \<open>True\<close>. Times are reals here.
\<close>

theorem hold_threshold_closes:
  assumes "escape_held w" and "escape_start w = Some s" and "0 < escape_duration w"
    and "\<forall>e\<in>set evs. e \<noteq> KEYUP K_ESCAPE"
    and "now = clock (os w) (clock_reads (os w))"
  shows "(now - s = escape_duration w \<longrightarrow> fst (process_parent_events evs w) = False) \<and>
         (now - s < escape_duration w \<and> QUIT \<notin> set evs \<longrightarrow>
            fst (process_parent_events evs w) = True) \<and>
         fst (draw_closing_animation w) = Some (min 1.0 ((now - s) / escape_duration w)) \<and>
         (now - s = escape_duration w \<longrightarrow> fst (draw_closing_animation w) = Some 1.0) \<and>
         (now - s < escape_duration w \<longrightarrow>
            (\<exists>p. fst (draw_closing_animation w) = Some p \<and> p < 1.0))"
proof -
  let ?w0 = "focus_update w"
  obtain r w' where el: "events_loop evs ?w0 = (r, w')" by (cases "events_loop evs ?w0")
  have r: "r = (if QUIT \<in> set evs then Some False else None)"
    using events_loop_return [of evs ?w0] el by simp
  note fu = focus_update_frame [of w]
  note fr = events_loop_frame [OF el]
  have stop: "fst (process_parent_events evs w) = False" if eq: "now - s \<ge> escape_duration w"
  proof (cases "QUIT \<in> set evs")
    case True
    with r el show ?thesis by (simp add: process_parent_events_def)
  next
    case False
    with r el have el': "events_loop evs ?w0 = (None, w')" by simp
    from events_loop_hold [OF el'] assms fu
    have h: "escape_held w'" "escape_start w' = Some s"
      "clock_reads (os w') = clock_reads (os w)" by simp_all
    from fr fu have "clock (os w') = clock (os w)" "escape_duration w' = escape_duration w"
      by simp_all
    with h eq assms(5) el' show ?thesis
      by (simp add: process_parent_events_def escape_check_def time_time_def)
  qed
  have cont: "fst (process_parent_events evs w) = True"
    if lt: "now - s < escape_duration w" and nq: "QUIT \<notin> set evs"
  proof -
    from nq r el have el': "events_loop evs ?w0 = (None, w')" by simp
    from events_loop_hold [OF el'] assms fu
    have h: "escape_held w'" "escape_start w' = Some s"
      "clock_reads (os w') = clock_reads (os w)" by simp_all
    from fr fu have "clock (os w') = clock (os w)" "escape_duration w' = escape_duration w"
      by simp_all
    with h lt assms(5) el' show ?thesis
      by (simp add: process_parent_events_def escape_check_def time_time_def)
  qed
  have prog: "fst (draw_closing_animation w) = Some (min 1.0 ((now - s) / escape_duration w))"
    using assms by (simp add: draw_closing_animation_def time_time_def)
  have one: "min 1.0 ((now - s) / escape_duration w) = 1.0" if "now - s = escape_duration w"
    using that assms(3) by simp
  have less: "min 1.0 ((now - s) / escape_duration w) < 1.0" if "now - s < escape_duration w"
    using that assms(3) by (simp add: min_def)
  show ?thesis using stop cont prog one less by auto
qed

theorem hold_threshold_closes_witness:
  "escape_held example_due \<and> escape_start example_due = Some 100 \<and>
   0 < escape_duration example_due \<and>
   KEYUP K_ESCAPE \<notin> set [KEYDOWN K_ESCAPE, MOUSEMOTION (5, 5)] \<and>
   clock (os example_due) (clock_reads (os example_due)) - 100 = escape_duration example_due \<and>
   fst (process_parent_events [KEYDOWN K_ESCAPE, MOUSEMOTION (5, 5)] example_due) = False \<and>
   fst (draw_closing_animation example_due) = Some 1 \<and>
   escape_held example_early \<and> escape_start example_early = Some 100 \<and>
   clock (os example_early) (clock_reads (os example_early)) - 100
     < escape_duration example_early \<and>
   QUIT \<notin> set [KEYDOWN K_ESCAPE, MOUSEMOTION (5, 5)] \<and>
   fst (process_parent_events [KEYDOWN K_ESCAPE, MOUSEMOTION (5, 5)] example_early) = True \<and>
   (\<exists>p. fst (draw_closing_animation example_early) = Some p \<and> p < 1)"
proof -
  let ?evs = "[KEYDOWN K_ESCAPE, MOUSEMOTION (5, 5)]"
  have h1: "escape_held example_due" "escape_held example_early"
    by (simp_all add: example_due_def example_early_def example_holding_eq)
  have h2: "escape_start example_due = Some 100" "escape_start example_early = Some 100"
    by (simp_all add: example_due_def example_early_def example_holding_eq)
  have h3: "0 < escape_duration example_due" "0 < escape_duration example_early"
    by (simp_all add: example_due_def example_early_def example_holding_eq example_window_eq)
  have h4: "\<forall>e\<in>set ?evs. e \<noteq> KEYUP K_ESCAPE" by simp
  have t1: "clock (os example_due) (clock_reads (os example_due)) - 100
              = escape_duration example_due"
    by (simp add: example_due_def example_holding_eq example_window_eq example_os_def)
  have t2: "clock (os example_early) (clock_reads (os example_early)) - 100
              < escape_duration example_early"
    by (simp add: example_early_def example_holding_eq example_window_eq example_os_def)
  have nq: "QUIT \<notin> set ?evs" by simp
  from hold_threshold_closes [OF h1(1) h2(1) h3(1) h4 refl]
       hold_threshold_closes [OF h1(2) h2(2) h3(2) h4 refl]
  show ?thesis
    using h1 h2 h3 h4 t1 t2 nq by (simp del: process_event.simps events_loop.simps)
qed

text \<open>
  C7. A key-up of the close key clears \<open>escape_held\<close> and \<open>escape_start\<close>, whenever it
  comes. From then on (\<open>held_since\<close> with the number of clock reads at the release),
  every frame keeps the start of a hold at a clock read made after the release, and a
  frame without a quit event that returns \<open>False\<close> has measured the full
  \<open>escape_duration\<close> from such a read: time held before the release does not count.
\<close>

theorem release_resets_hold:
  shows "process_event (KEYUP K_ESCAPE) w = (None, w\<lparr>escape_held := False, escape_start := None\<rparr>) \<and>
         held_since (clock_reads (os w)) (w\<lparr>escape_held := False, escape_start := None\<rparr>) \<and>
         (held_since k0 v \<and> process_parent_events evs v = (b, v') \<longrightarrow>
            held_since k0 v' \<and>
            (\<not> b \<and> QUIT \<notin> set evs \<longrightarrow>
               (\<exists>k. k0 \<le> k \<and> Suc k < clock_reads (os v') \<and>
                    escape_start v' = Some (clock (os v) k) \<and>
                    clock (os v) (clock_reads (os v') - 1) - clock (os v) k
                      \<ge> escape_duration v)))"
proof -
  have a: "process_event (KEYUP K_ESCAPE) w =
             (None, w\<lparr>escape_held := False, escape_start := None\<rparr>)" by simp
  have b: "held_since (clock_reads (os w)) (w\<lparr>escape_held := False, escape_start := None\<rparr>)"
    by (simp add: held_since_def)
  have c: "held_since k0 v' \<and>
            (\<not> b \<and> QUIT \<notin> set evs \<longrightarrow>
               (\<exists>k. k0 \<le> k \<and> Suc k < clock_reads (os v') \<and>
                    escape_start v' = Some (clock (os v) k) \<and>
                    clock (os v) (clock_reads (os v') - 1) - clock (os v) k
                      \<ge> escape_duration v))"
    if hs: "held_since k0 v" and ppe: "process_parent_events evs v = (b, v')"
  proof -
    let ?v0 = "focus_update v"
    obtain r v1 where el: "events_loop evs ?v0 = (r, v1)" by (cases "events_loop evs ?v0")
    have r: "r = (if QUIT \<in> set evs then Some False else None)"
      using events_loop_return [of evs ?v0] el by simp
    note fu = focus_update_frame [of v]
    note fr = events_loop_frame [OF el]
    have h1: "held_since k0 v1"
      using events_loop_held_since [OF el focus_update_held_since [OF hs]] .
    show ?thesis
    proof (cases "QUIT \<in> set evs")
      case True
      with r el ppe have "v' = v1" by (simp add: process_parent_events_def)
      with h1 True show ?thesis by simp
    next
      case False
      with r el ppe have ec: "escape_check v1 = (b, v')"
        by (simp add: process_parent_events_def)
      from fr fu have same: "clock (os v1) = clock (os v)" "escape_duration v1 = escape_duration v"
        by simp_all
      show ?thesis
        using ec h1 same
        by (auto simp: escape_check_def held_since_def time_time_def split: if_splits)
    qed
  qed
  show ?thesis using a b c by blast
qed

theorem release_resets_hold_witness:
  "held_since 1 example_rehold \<and>
   process_parent_events [] example_rehold =
     (False, example_rehold\<lparr>os := (os example_rehold)\<lparr>clock_reads := 9\<rparr>\<rparr>) \<and>
   QUIT \<notin> set [] \<and>
   held_since 1 (example_rehold\<lparr>os := (os example_rehold)\<lparr>clock_reads := 9\<rparr>\<rparr>) \<and>
   (\<exists>k. 1 \<le> k \<and> Suc k < 9 \<and>
        escape_start example_rehold = Some (clock (os example_rehold) k) \<and>
        clock (os example_rehold) 8 - clock (os example_rehold) k
          \<ge> escape_duration example_rehold)"
proof -
  have os_eq: "clock (os example_rehold) = clock example_os" "clock_reads (os example_rehold) = 8"
    by (simp_all add: example_rehold_def example_window_eq)
  have hs: "held_since 1 example_rehold"
    unfolding held_since_def
    by (rule conjI, simp add: os_eq, rule impI, rule exI [of _ 1])
       (simp add: os_eq, simp add: example_rehold_def)
  have fg: "hwnd example_rehold = GetForegroundWindow (os example_rehold)"
    by (simp add: example_rehold_def example_window_eq GetForegroundWindow_def example_os_def)
  have held: "escape_held example_rehold" "escape_start example_rehold = Some (clock example_os 1)"
    by (simp_all add: example_rehold_def)
  have due: "escape_duration example_rehold \<le> clock example_os 8 - clock example_os 1"
    by (simp add: example_rehold_def example_window_eq example_os_def)
  have fu: "focus_update example_rehold = example_rehold"
    using fg by (simp add: focus_update_def Let_def example_rehold_def example_window_eq)
  have ppe: "process_parent_events [] example_rehold =
     (False, example_rehold\<lparr>os := (os example_rehold)\<lparr>clock_reads := 9\<rparr>\<rparr>)"
    using held due os_eq
    by (simp add: process_parent_events_def fu escape_check_def time_time_def)
  from release_resets_hold [of example_window 1 example_rehold "[]" False
         "example_rehold\<lparr>os := (os example_rehold)\<lparr>clock_reads := 9\<rparr>\<rparr>"] hs ppe
  show ?thesis by (simp del: process_event.simps)
qed

text \<open>
  C6. When the window is not the foreground window while expanded, the focus check of
  \<open>process_parent_events\<close> clears \<open>expanded\<close> and makes \<open>min_radius\<close> the target, and
  the frame ends so unless its batch holds a qualifying activation click. A collapsed
  window stays collapsed with its target unchanged through any frame without such a
  click, whether or not it is the foreground window.
\<close>

theorem focus_loss_collapses_only_click_expands:
  "(GetForegroundWindow (os w) \<noteq> hwnd w \<and> expanded w \<longrightarrow>
      \<not> has_focus (focus_update w) \<and> \<not> expanded (focus_update w) \<and>
      target_radius (focus_update w) = real_of_int (min_radius w) \<and>
      ((\<forall>e\<in>set evs. \<not> activation_click w e) \<longrightarrow>
         \<not> expanded (snd (process_parent_events evs w)) \<and>
         target_radius (snd (process_parent_events evs w)) = real_of_int (min_radius w))) \<and>
   (\<not> expanded w \<and> (\<forall>e\<in>set evs. \<not> activation_click w e) \<longrightarrow>
      \<not> expanded (snd (process_parent_events evs w)) \<and>
      target_radius (snd (process_parent_events evs w)) = target_radius w)"
proof -
  let ?w0 = "focus_update w"
  obtain r w' where el: "events_loop evs ?w0 = (r, w')" by (cases "events_loop evs ?w0")
  have snd_eq: "expanded (snd (process_parent_events evs w)) = expanded w' \<and>
                target_radius (snd (process_parent_events evs w)) = target_radius w'"
    using el escape_check_frame [of w']
    by (cases r) (simp_all add: process_parent_events_def)
  have cong: "activation_click ?w0 e = activation_click w e" for e
    by (rule activation_click_cong) (simp_all add: focus_update_frame)
  have keep: "\<not> expanded w' \<and> target_radius w' = target_radius ?w0"
    if "\<not> expanded ?w0" and "\<forall>e\<in>set evs. \<not> activation_click w e"
    using events_loop_collapsed [OF el that(1)] that(2) cong by simp
  have lost: "\<not> has_focus ?w0 \<and> \<not> expanded ?w0 \<and>
              target_radius ?w0 = real_of_int (min_radius w)"
    if "GetForegroundWindow (os w) \<noteq> hwnd w" and "expanded w"
    using that by (auto simp: focus_update_def Let_def)
  have idle: "\<not> expanded ?w0 \<and> target_radius ?w0 = target_radius w" if "\<not> expanded w"
    using that by (simp add: focus_update_def Let_def)
  show ?thesis using snd_eq keep lost idle by metis
qed

theorem focus_loss_collapses_only_click_expands_witness:
  "GetForegroundWindow (os example_unfocused) \<noteq> hwnd example_unfocused \<and>
   expanded example_unfocused \<and>
   \<not> activation_click example_unfocused (MOUSEMOTION (10, 10)) \<and>
   \<not> activation_click example_unfocused (KEYDOWN K_RETURN) \<and>
   \<not> expanded (snd (process_parent_events [MOUSEMOTION (10, 10), KEYDOWN K_RETURN]
                      example_unfocused)) \<and>
   target_radius (snd (process_parent_events [MOUSEMOTION (10, 10), KEYDOWN K_RETURN]
                      example_unfocused)) = 80 \<and>
   GetForegroundWindow (os example_collapsed) = hwnd example_collapsed \<and>
   \<not> expanded example_collapsed \<and>
   \<not> activation_click example_collapsed (MOUSEBUTTONDOWN 1 (230, 240)) \<and>
   \<not> expanded (snd (process_parent_events [MOUSEBUTTONDOWN 1 (230, 240)] example_collapsed)) \<and>
   target_radius (snd (process_parent_events [MOUSEBUTTONDOWN 1 (230, 240)] example_collapsed))
     = 80"
proof -
  let ?e1 = "[MOUSEMOTION (10, 10), KEYDOWN K_RETURN]"
  let ?e2 = "[MOUSEBUTTONDOWN 1 (230, 240)]"
  have f1: "GetForegroundWindow (os example_unfocused) \<noteq> hwnd example_unfocused"
    "expanded example_unfocused" "min_radius example_unfocused = 80"
    by (simp_all add: example_unfocused_def example_window_eq GetForegroundWindow_def
        example_os_def)
  have a1: "\<forall>e\<in>set ?e1. \<not> activation_click example_unfocused e"
    by (simp add: activation_click_def)
  have f2: "GetForegroundWindow (os example_collapsed) = hwnd example_collapsed"
    "\<not> expanded example_collapsed" "target_radius example_collapsed = 80"
    by (simp_all add: example_collapsed_eq GetForegroundWindow_def example_os_def)
  have a2: "\<forall>e\<in>set ?e2. \<not> activation_click example_collapsed e"
    by (simp add: activation_click_def example_collapsed_eq math_dist_example)
  from focus_loss_collapses_only_click_expands [of example_unfocused ?e1]
       focus_loss_collapses_only_click_expands [of example_collapsed ?e2]
       f1 f2 a1 a2
  show ?thesis by (simp del: process_event.simps)
qed

text \<open>
  C3. From a state with \<open>min_radius \<le> current_radius \<le> max_radius\<close>, a target that is
  \<open>min_radius\<close> or \<open>max_radius\<close> and a non-negative transition speed (the constructor
  sets 8.0), the radii after \<open>n\<close> and \<open>n + 1\<close> calls of \<open>update_size\<close> are ordered
  towards the target, never pass it, and stay between \<open>min_radius\<close> and \<open>max_radius\<close>.
  Radii are reals here.
\<close>

theorem update_size_monotone_bounded:
  assumes "real_of_int (min_radius w) \<le> current_radius w"
    and "current_radius w \<le> real_of_int (max_radius w)"
    and "target_radius w = real_of_int (min_radius w) \<or>
         target_radius w = real_of_int (max_radius w)"
    and "0 \<le> size_transition_speed w"
  shows "(current_radius w \<le> target_radius w \<longrightarrow>
            current_radius ((update_size ^^ n) w) \<le> current_radius ((update_size ^^ Suc n) w) \<and>
            current_radius ((update_size ^^ Suc n) w) \<le> target_radius w) \<and>
         (target_radius w \<le> current_radius w \<longrightarrow>
            target_radius w \<le> current_radius ((update_size ^^ Suc n) w) \<and>
            current_radius ((update_size ^^ Suc n) w) \<le> current_radius ((update_size ^^ n) w)) \<and>
         real_of_int (min_radius w) \<le> current_radius ((update_size ^^ n) w) \<and>
         current_radius ((update_size ^^ n) w) \<le> real_of_int (max_radius w)"
proof -
  let ?v = "(update_size ^^ n) w"
  note it = update_size_iter [OF assms(4), of n]
  from it assms(4) have sp: "0 \<le> size_transition_speed ?v" by simp
  note st = update_size_step [OF sp]
  have tv: "target_radius ?v = target_radius w" using it by simp
  have mono_up: "current_radius ?v \<le> current_radius (update_size ?v) \<and>
                 current_radius (update_size ?v) \<le> target_radius w"
    if "current_radius w \<le> target_radius w"
    using that it st tv by simp
  have mono_down: "target_radius w \<le> current_radius (update_size ?v) \<and>
                   current_radius (update_size ?v) \<le> current_radius ?v"
    if "target_radius w \<le> current_radius w"
    using that it st tv by simp
  have bounds: "real_of_int (min_radius w) \<le> current_radius ?v \<and>
                current_radius ?v \<le> real_of_int (max_radius w)"
    using it assms(1-3) by linarith
  show ?thesis using mono_up mono_down bounds by simp
qed

theorem update_size_monotone_bounded_witness:
  "real_of_int (min_radius example_shrinking) \<le> current_radius example_shrinking \<and>
   current_radius example_shrinking \<le> real_of_int (max_radius example_shrinking) \<and>
   target_radius example_shrinking = real_of_int (min_radius example_shrinking) \<and>
   0 \<le> size_transition_speed example_shrinking \<and>
   target_radius example_shrinking \<le> current_radius example_shrinking \<and>
   80 \<le> current_radius ((update_size ^^ Suc 2) example_shrinking) \<and>
   current_radius ((update_size ^^ Suc 2) example_shrinking)
     \<le> current_radius ((update_size ^^ 2) example_shrinking) \<and>
   current_radius ((update_size ^^ 2) example_shrinking) \<le> 200"
proof -
  have h1: "real_of_int (min_radius example_shrinking) \<le> current_radius example_shrinking"
    and h2: "current_radius example_shrinking \<le> real_of_int (max_radius example_shrinking)"
    and h3: "target_radius example_shrinking = real_of_int (min_radius example_shrinking) \<or>
             target_radius example_shrinking = real_of_int (max_radius example_shrinking)"
    and h4: "0 \<le> size_transition_speed example_shrinking"
    and h5: "target_radius example_shrinking \<le> current_radius example_shrinking"
    and v: "target_radius example_shrinking = 80" "max_radius example_shrinking = 200"
      "min_radius example_shrinking = 80"
    by (simp_all add: example_shrinking_def example_window_eq)
  from update_size_monotone_bounded [OF h1 h2 h3 h4, of 2] h5
  have "target_radius example_shrinking \<le> current_radius ((update_size ^^ Suc 2) example_shrinking)"
    "current_radius ((update_size ^^ Suc 2) example_shrinking)
       \<le> current_radius ((update_size ^^ 2) example_shrinking)"
    "current_radius ((update_size ^^ 2) example_shrinking)
       \<le> real_of_int (max_radius example_shrinking)"
    by blast+
  with h1 h2 h4 h5 v show ?thesis by simp
qed

text \<open>
  C9. For every integer \<open>--minutes\<close> the timer starts with
  \<open>max 60 (min 5400 (minutes * 60))\<close> seconds, between 60 and 5400. For every
  \<open>--color\<close> string the colour handed to the window is three integers in 0..255: the
  parsed ones when the string is three comma-separated fields that \<open>int\<close> accepts within
  that range, and \<open>(0, 120, 255)\<close> in every other case; the \<open>ValueError\<close> never leaves
  the \<open>try\<close> statement.
\<close>

theorem configuration_normalized:
  "seconds (main_window py_int minutes start color desc btns ow) = max 60 (min 5400 (minutes * 60)) \<and>
   60 \<le> seconds (main_window py_int minutes start color desc btns ow) \<and>
   seconds (main_window py_int minutes start color desc btns ow) \<le> 5400 \<and>
   bg_color (main_window py_int minutes start color desc btns ow) = parse_color py_int color @ [255] \<and>
   (\<exists>r g b. parse_color py_int color = [r, g, b] \<and>
      0 \<le> r \<and> r \<le> 255 \<and> 0 \<le> g \<and> g \<le> 255 \<and> 0 \<le> b \<and> b \<le> 255) \<and>
   ((\<nexists>x y z r g b. split_comma color = [x, y, z] \<and>
        py_int x = Some r \<and> py_int y = Some g \<and> py_int z = Some b \<and>
        0 \<le> r \<and> r \<le> 255 \<and> 0 \<le> g \<and> g \<le> 255 \<and> 0 \<le> b \<and> b \<le> 255) \<longrightarrow>
      parse_color py_int color = [0, 120, 255]) \<and>
   (split_comma color = [x, y, z] \<and>
      py_int x = Some r \<and> py_int y = Some g \<and> py_int z = Some b \<and>
      0 \<le> r \<and> r \<le> 255 \<and> 0 \<le> g \<and> g \<le> 255 \<and> 0 \<le> b \<and> b \<le> 255 \<longrightarrow>
      parse_color py_int color = [r, g, b])"
proof -
  note mw = main_window_fields [of py_int minutes start color desc btns ow]
  have bounds: "60 \<le> max 60 (min 5400 (minutes * 60))" "max 60 (min 5400 (minutes * 60)) \<le> 5400"
    by simp_all
  have rng: "\<exists>r g b. parse_color py_int color = [r, g, b] \<and>
      0 \<le> r \<and> r \<le> 255 \<and> 0 \<le> g \<and> g \<le> 255 \<and> 0 \<le> b \<and> b \<le> 255"
    using parse_color_cases [of py_int color] by auto
  have dflt: "parse_color py_int color = [0, 120, 255]"
    if "\<nexists>x y z r g b. split_comma color = [x, y, z] \<and>
        py_int x = Some r \<and> py_int y = Some g \<and> py_int z = Some b \<and>
        0 \<le> r \<and> r \<le> 255 \<and> 0 \<le> g \<and> g \<le> 255 \<and> 0 \<le> b \<and> b \<le> 255"
    using parse_color_cases [of py_int color] that by blast
  have acc: "parse_color py_int color = [r, g, b]"
    if "split_comma color = [x, y, z] \<and>
      py_int x = Some r \<and> py_int y = Some g \<and> py_int z = Some b \<and>
      0 \<le> r \<and> r \<le> 255 \<and> 0 \<le> g \<and> g \<le> 255 \<and> 0 \<le> b \<and> b \<le> 255"
    using that parse_color_accepts [of color x y z py_int r g b] by simp
  show ?thesis using mw bounds rng dflt acc by (intro conjI impI) simp_all
qed

theorem configuration_normalized_witness:
  "seconds (main_window decimal 500 False ''10,20,300'' None example_buttons example_os) = 5400 \<and>
   seconds (main_window decimal (- 3) False ''10,20,300'' None example_buttons example_os) = 60 \<and>
   (\<nexists>x y z r g b. split_comma ''10,20,300'' = [x, y, z] \<and>
        decimal x = Some r \<and> decimal y = Some g \<and> decimal z = Some b \<and>
        0 \<le> r \<and> r \<le> 255 \<and> 0 \<le> g \<and> g \<le> 255 \<and> 0 \<le> b \<and> b \<le> 255) \<and>
   parse_color decimal ''10,20,300'' = [0, 120, 255] \<and>
   split_comma ''10,20,30'' = [''10'', ''20'', ''30''] \<and>
   decimal ''10'' = Some 10 \<and> decimal ''20'' = Some 20 \<and> decimal ''30'' = Some 30 \<and>
   parse_color decimal ''10,20,30'' = [10, 20, 30]"
proof -
  have sp: "split_comma ''10,20,300'' = [''10'', ''20'', ''300'']"
    "split_comma ''10,20,30'' = [''10'', ''20'', ''30'']" by simp_all
  have dv: "decimal ''10'' = Some 10" "decimal ''20'' = Some 20" "decimal ''30'' = Some 30"
    "decimal ''300'' = Some 300"
    by (simp_all add: decimal_def)
  have bad: "\<nexists>x y z r g b. split_comma ''10,20,300'' = [x, y, z] \<and>
        decimal x = Some r \<and> decimal y = Some g \<and> decimal z = Some b \<and>
        0 \<le> r \<and> r \<le> 255 \<and> 0 \<le> g \<and> g \<le> 255 \<and> 0 \<le> b \<and> b \<le> 255"
    unfolding sp using dv by auto
  note a = configuration_normalized [of decimal 500 False "''10,20,300''" None example_buttons
      example_os]
  note b = configuration_normalized [of decimal "- 3" False "''10,20,300''" None example_buttons
      example_os]
  note c = configuration_normalized [of decimal 5 False "''10,20,30''" None example_buttons
      example_os "''10''" "''20''" "''30''" 10 20 30]
  have s1: "seconds (main_window decimal 500 False ''10,20,300'' None example_buttons example_os)
              = 5400" using a by simp
  have s2: "seconds (main_window decimal (- 3) False ''10,20,300'' None example_buttons example_os)
              = 60" using b by simp
  have d: "parse_color decimal ''10,20,300'' = [0, 120, 255]" using a bad by blast
  have e: "parse_color decimal ''10,20,30'' = [10, 20, 30]" using c sp(2) dv by simp
  show ?thesis using s1 s2 bad d e sp(2) dv by blast
qed

text \<open>
  C1. The dispatch is to return stop for every batch with a quit event, also when a
  button took a click of the same batch. It does not: for a click on START followed by a
  quit event \<open>TimerWindow.handle_events\<close> returns \<open>True\<close> (continue), while
  \<open>process_parent_events\<close> on the same batch and state returns \<open>False\<close>.
\<close>

theorem handle_events_swallows_quit:
  "fst (handle_events [MOUSEBUTTONDOWN 1 (200, 280), QUIT] example_timer) = True \<and>
   fst (process_parent_events [MOUSEBUTTONDOWN 1 (200, 280), QUIT] example_timer) = False"
  by (simp add: example_timer_eq handle_events_def handle_button_click_def example_buttons_def
      collidepoint_def button_action_def time_time_def process_parent_events_def
      focus_update_def GetForegroundWindow_def example_os_def handle_window_click_def Let_def
      math_dist_def get_cursor_pos_def GetCursorPos_def GetWindowRect_def)

text \<open>
  C2. Every key-down and key-up of the close key is to reach the close-gesture logic,
  whatever else the batch holds. It does not when a button took a click of the batch:
  after a click on START a key-up leaves \<open>escape_held\<close> and \<open>escape_start\<close> set, and a
  key-down leaves \<open>escape_held\<close> clear, while \<open>process_parent_events\<close> on the same
  batches clears and sets it.
\<close>

theorem handle_events_drops_escape_keys:
  "escape_held (snd (handle_events [MOUSEBUTTONDOWN 1 (200, 280), KEYUP K_ESCAPE]
                      example_timer_holding)) \<and>
   escape_start (snd (handle_events [MOUSEBUTTONDOWN 1 (200, 280), KEYUP K_ESCAPE]
                      example_timer_holding)) = Some (401 / 4) \<and>
   \<not> escape_held (snd (process_parent_events [MOUSEBUTTONDOWN 1 (200, 280), KEYUP K_ESCAPE]
                      example_timer_holding)) \<and>
   \<not> escape_held (snd (handle_events [MOUSEBUTTONDOWN 1 (200, 280), KEYDOWN K_ESCAPE]
                      example_timer)) \<and>
   escape_held (snd (process_parent_events [MOUSEBUTTONDOWN 1 (200, 280), KEYDOWN K_ESCAPE]
                      example_timer))"
  by (simp add: example_timer_holding_eq example_timer_eq handle_events_def
      handle_button_click_def example_buttons_def collidepoint_def button_action_def
      time_time_def process_parent_events_def focus_update_def GetForegroundWindow_def
      handle_window_click_def Let_def math_dist_def get_cursor_pos_def
      GetCursorPos_def GetWindowRect_def escape_check_def keys_distinct example_os_def
      del: not_None_eq)

text \<open>
  The key-up that was dropped is never made up for: once the clock has passed the
  threshold, an empty batch closes the window although the key was released.
\<close>

lemma lost_keyup_closes_window:
  "fst (handle_events []
         ((snd (handle_events [MOUSEBUTTONDOWN 1 (200, 280), KEYUP K_ESCAPE]
                  example_timer_holding))
          \<lparr>os := (os example_timer_holding)\<lparr>clock_reads := 9\<rparr>\<rparr>)) = False"
  by (simp add: example_timer_holding_eq example_timer_eq handle_events_def
      handle_button_click_def example_buttons_def collidepoint_def button_action_def
      time_time_def process_parent_events_def focus_update_def GetForegroundWindow_def
      handle_window_click_def Let_def math_dist_def get_cursor_pos_def
      GetCursorPos_def GetWindowRect_def escape_check_def keys_distinct example_os_def
      del: not_None_eq)

end
